theory Spec2Isabelle
  imports Main "HOL-Library.Sublist"
begin

section \<open>Values shared by the modules\<close>

text \<open>
  The program is glue around three libraries (document loaders and a text splitter, a
  persistent vector store, a client of a local language model) and a chat front end.
  Every call into a library is a call of an oracle of the record \<open>env\<close>; what a call
  does to the persisted index and the order of the calls are kept in the record
  \<open>world\<close>, which every function takes and returns.  A Python exception is a value
  \<open>Inl e\<close>; only exceptions of class \<open>Exception\<close> are considered, the class all handlers
  of the program catch.  The constructor of a loader may raise, as the call of its
  \<open>load\<close> may; \<open>os.makedirs\<close>, the splitter and the construction of the prompt template
  are taken to return.  In a condition, \<open>None\<close> is false and an object is true unless its
  class gives it a length and the length is 0: a \<open>Chroma\<close> object has the number of records
  of its collection as length, the other objects the program tests (the embedding model,
  the retriever, the chain) have none.  The two branches of the chain's first step
  (retrieval and the question passed through) are run one after the other; the calls that
  only draw on the page (\<open>st.markdown\<close>, \<open>st.error\<close>, the spinner) and \<open>print\<close> are left
  out.
\<close>

datatype exn = Exception string

text \<open>\<open>str(e)\<close>, what an f-string prints for \<open>{e}\<close>.\<close>

fun str :: "exn \<Rightarrow> string" where
  "str (Exception m) = m"

record document =
  page_content :: string
  metadata :: "(string \<times> string) list"

text \<open>A loader object remembers the path it was built for.\<close>

datatype loader =
    PyPDFLoader string
  | TextLoader string
  | UnstructuredMarkdownLoader string

datatype embeddings = HuggingFaceEmbeddings string

text \<open>A \<open>Chroma\<close> handle: the directory, the collection and the embedding function.\<close>

record chroma =
  vs_persist_directory :: string
  vs_collection_name :: string
  vs_embedding_function :: embeddings

text \<open>The calls into the libraries and the operating system, as they are logged.\<close>

datatype call =
    Call_HuggingFaceEmbeddings string
  | Call_os_walk string
  | Call_construct loader
  | Call_load loader
  | Call_split_documents
  | Call_os_makedirs string
  | Call_shutil_rmtree string
  | Call_Chroma string string
  | Call_add_documents string string "document list"
  | Call_from_documents string string "document list"
  | Call_as_retriever nat
  | Call_Ollama string string
  | Call_retrieve string
  | Call_llm string

text \<open>
  The persisted index: a directory that exists holds collections by name, a collection
  is the list of its records in insertion order.  The position of a record stands for its
  internally assigned id; the embedding vector of a record is a function of its text and
  is not stored in the model.
\<close>

record world =
  disk :: "string \<Rightarrow> (string \<Rightarrow> document list option) option"
  calls :: "call list"

text \<open>The client of the language model: the endpoint and the name of the model.\<close>

record ollama =
  base_url :: string
  model :: string

text \<open>
  The oracles.  A \<open>fault\<close> oracle says whether a library call raises, and what; the
  faults of the vector store may depend on everything that happened before the call.
  \<open>similarity_search\<close> ranks the records of a collection for a query.  \<open>llm_stream\<close> is
  the streaming endpoint of the model as the client reads it: the fragments it yields for
  a prompt, and the exception that ends the stream if one does.  The endpoint is taken to
  answer a prompt in one way.
\<close>

record env =
  PROJECT_ROOT :: string
  os_walk :: "string \<Rightarrow> (string \<times> string list) list"
  construct_fault :: "loader \<Rightarrow> exn option"
  load :: "loader \<Rightarrow> exn + document list"
  split_text :: "nat \<Rightarrow> nat \<Rightarrow> document list \<Rightarrow> document list"
  embeddings_fault :: "string \<Rightarrow> exn option"
  Chroma_fault :: "world \<Rightarrow> string \<Rightarrow> string \<Rightarrow> exn option"
  add_documents_fault :: "world \<Rightarrow> chroma \<Rightarrow> document list \<Rightarrow> exn option"
  from_documents_fault :: "world \<Rightarrow> string \<Rightarrow> string \<Rightarrow> document list \<Rightarrow> exn option"
  Ollama_fault :: "string \<Rightarrow> string \<Rightarrow> exn option"
  similarity_search :: "embeddings \<Rightarrow> document list \<Rightarrow> nat \<Rightarrow> string \<Rightarrow> exn + document list"
  llm_stream :: "ollama \<Rightarrow> string \<Rightarrow> string list \<times> exn option"

definition log :: "call \<Rightarrow> world \<Rightarrow> world" where
  "log c w = w\<lparr>calls := calls w @ [c]\<rparr>"

section \<open>config.py\<close>

definition endswith :: "string \<Rightarrow> string \<Rightarrow> bool" where
  "endswith s sfx \<longleftrightarrow> length sfx \<le> length s \<and> drop (length s - length sfx) s = sfx"

text \<open>\<open>os.path.join\<close> of two components, on a POSIX system.\<close>

definition os_path_join :: "string \<Rightarrow> string \<Rightarrow> string" where
  "os_path_join a b =
     (if take 1 b = ''/'' then b
      else if a = [] \<or> endswith a ''/'' then a @ b
      else a @ ''/'' @ b)"

definition DATA_DIR :: "env \<Rightarrow> string" where
  "DATA_DIR E = os_path_join (PROJECT_ROOT E) ''data''"

definition PRODUCT_DOCS_DIR :: "env \<Rightarrow> string" where
  "PRODUCT_DOCS_DIR E = os_path_join (DATA_DIR E) ''product_docs''"

definition VECTOR_STORE_DIR :: "env \<Rightarrow> string" where
  "VECTOR_STORE_DIR E = os_path_join (PROJECT_ROOT E) ''vector_store''"

definition CHROMA_DB_PATH :: "env \<Rightarrow> string" where
  "CHROMA_DB_PATH E = os_path_join (VECTOR_STORE_DIR E) ''chroma_db''"

definition CHROMA_COLLECTION_NAME :: string where
  "CHROMA_COLLECTION_NAME = ''product_info_collection''"

definition EMBEDDING_MODEL_NAME :: string where
  "EMBEDDING_MODEL_NAME = ''all-MiniLM-L6-v2''"

definition OLLAMA_BASE_URL :: string where
  "OLLAMA_BASE_URL = ''http://localhost:11434''"

definition OLLAMA_MODEL_NAME :: string where
  "OLLAMA_MODEL_NAME = ''tinyllama''"

definition CHUNK_SIZE :: nat where
  "CHUNK_SIZE = 500"

definition CHUNK_OVERLAP :: nat where
  "CHUNK_OVERLAP = 200"

definition TOP_K_RETRIEVAL :: nat where
  "TOP_K_RETRIEVAL = 5"

section \<open>data\_processor.py\<close>

text \<open>
  The \<open>if\<close>/\<open>elif\<close> chain of \<open>load_documents\<close> on the file name: the loader class
  the branch constructs, with the path it is given; \<open>None\<close> is the branch that skips the
  file.
\<close>

definition select_loader :: "string \<Rightarrow> string \<Rightarrow> loader option" where
  "select_loader file_path file_name =
     (if endswith file_name ''.pdf'' then Some (PyPDFLoader file_path)
      else if endswith file_name ''.txt'' then Some (TextLoader file_path)
      else if endswith file_name ''.md'' \<or> endswith file_name ''.markdown''
        then Some (UnstructuredMarkdownLoader file_path)
      else None)"

text \<open>
  The inner loop, over the files of one directory of the walk.  The constructor of the
  loader runs before the \<open>try\<close> block: its exception leaves the function.  The call of
  \<open>load\<close> runs inside: its exception is caught and the loop goes on.
\<close>

fun load_files ::
  "env \<Rightarrow> string \<Rightarrow> string list \<Rightarrow> document list \<times> world
     \<Rightarrow> (exn + document list) \<times> world" where
  "load_files E root [] (documents, w) = (Inr documents, w)"
| "load_files E root (file_name # files) (documents, w) =
     (let file_path = os_path_join root file_name in
      case select_loader file_path file_name of
        None \<Rightarrow> load_files E root files (documents, w)
      | Some loader \<Rightarrow>
          (case construct_fault E loader of
             Some e \<Rightarrow> (Inl e, log (Call_construct loader) w)
           | None \<Rightarrow>
               (case load E loader of
                  Inr loaded \<Rightarrow>
                    load_files E root files
                      (documents @ loaded, log (Call_load loader) (log (Call_construct loader) w))
                | Inl e \<Rightarrow>
                    load_files E root files
                      (documents, log (Call_load loader) (log (Call_construct loader) w)))))"

text \<open>The outer loop, over the directories \<open>os.walk\<close> yields.\<close>

fun load_walk ::
  "env \<Rightarrow> (string \<times> string list) list \<Rightarrow> document list \<times> world
     \<Rightarrow> (exn + document list) \<times> world" where
  "load_walk E [] (documents, w) = (Inr documents, w)"
| "load_walk E ((root, files) # rest) s =
     (case load_files E root files s of
        (Inl e, w1) \<Rightarrow> (Inl e, w1)
      | (Inr documents, w1) \<Rightarrow> load_walk E rest (documents, w1))"

definition load_documents :: "env \<Rightarrow> string \<Rightarrow> world \<Rightarrow> (exn + document list) \<times> world" where
  "load_documents E directory w =
     load_walk E (os_walk E directory) ([], log (Call_os_walk directory) w)"

definition split_documents :: "env \<Rightarrow> document list \<Rightarrow> world \<Rightarrow> document list \<times> world" where
  "split_documents E documents w =
     (split_text E CHUNK_SIZE CHUNK_OVERLAP documents, log Call_split_documents w)"

definition get_processed_documents :: "env \<Rightarrow> world \<Rightarrow> (exn + document list) \<times> world" where
  "get_processed_documents E w =
     (case load_documents E (PRODUCT_DOCS_DIR E) w of
        (Inl e, w1) \<Rightarrow> (Inl e, w1)
      | (Inr raw_documents, w1) \<Rightarrow>
          if raw_documents = [] then (Inr [], w1)
          else (case split_documents E raw_documents w1 of
                  (processed_chunks, w2) \<Rightarrow> (Inr processed_chunks, w2)))"

section \<open>embedding\_model.py\<close>

definition get_embedding_model :: "env \<Rightarrow> world \<Rightarrow> embeddings option \<times> world" where
  "get_embedding_model E w =
     (let w1 = log (Call_HuggingFaceEmbeddings EMBEDDING_MODEL_NAME) w in
      case embeddings_fault E EMBEDDING_MODEL_NAME of
        None \<Rightarrow> (Some (HuggingFaceEmbeddings EMBEDDING_MODEL_NAME), w1)
      | Some e \<Rightarrow> (None, w1))"

section \<open>vector\_db\_manager.py\<close>

subsection \<open>The directory and the vector store library\<close>

text \<open>\<open>os.makedirs(path, exist_ok=True)\<close>, \<open>os.path.exists\<close> and \<open>shutil.rmtree\<close>.\<close>

definition os_makedirs :: "string \<Rightarrow> world \<Rightarrow> world" where
  "os_makedirs path w =
     (let w1 = log (Call_os_makedirs path) w in
      case disk w1 path of
        None \<Rightarrow> w1\<lparr>disk := (disk w1)(path \<mapsto> Map.empty)\<rparr>
      | Some cs \<Rightarrow> w1)"

definition os_path_exists :: "string \<Rightarrow> world \<Rightarrow> bool" where
  "os_path_exists path w \<longleftrightarrow> disk w path \<noteq> None"

definition shutil_rmtree :: "string \<Rightarrow> world \<Rightarrow> world" where
  "shutil_rmtree path w =
     (let w1 = log (Call_shutil_rmtree path) w in w1\<lparr>disk := (disk w1)(path := None)\<rparr>)"

text \<open>The records of a collection; none when the directory or the collection is missing.\<close>

definition collection :: "world \<Rightarrow> string \<Rightarrow> string \<Rightarrow> document list" where
  "collection w d c =
     (case disk w d of
        None \<Rightarrow> []
      | Some cs \<Rightarrow> (case cs c of None \<Rightarrow> [] | Some records \<Rightarrow> records))"

definition get_or_create_collection :: "string \<Rightarrow> string \<Rightarrow> world \<Rightarrow> world" where
  "get_or_create_collection d c w =
     (case disk w d of
        None \<Rightarrow> w\<lparr>disk := (disk w)(d \<mapsto> [c \<mapsto> []])\<rparr>
      | Some cs \<Rightarrow>
          (case cs c of
             None \<Rightarrow> w\<lparr>disk := (disk w)(d \<mapsto> cs(c \<mapsto> []))\<rparr>
           | Some records \<Rightarrow> w))"

text \<open>Adding records appends them: the library assigns each a fresh id and compares nothing.\<close>

definition add_records :: "string \<Rightarrow> string \<Rightarrow> document list \<Rightarrow> world \<Rightarrow> world" where
  "add_records d c documents w =
     (let cs = (case disk w d of None \<Rightarrow> Map.empty | Some cs \<Rightarrow> cs) in
      w\<lparr>disk := (disk w)(d \<mapsto> cs(c \<mapsto> collection w d c @ documents))\<rparr>)"

text \<open>
  The three entry points of the library the program uses.  A call that raises leaves the
  index as it found it.
\<close>

definition Chroma :: "env \<Rightarrow> string \<Rightarrow> embeddings \<Rightarrow> string \<Rightarrow> world \<Rightarrow> (exn + chroma) \<times> world" where
  "Chroma E d emb c w =
     (let w1 = log (Call_Chroma d c) w in
      case Chroma_fault E w d c of
        Some e \<Rightarrow> (Inl e, w1)
      | None \<Rightarrow>
          (Inr \<lparr>vs_persist_directory = d, vs_collection_name = c, vs_embedding_function = emb\<rparr>,
           get_or_create_collection d c w1))"

definition add_documents :: "env \<Rightarrow> chroma \<Rightarrow> document list \<Rightarrow> world \<Rightarrow> (exn + unit) \<times> world" where
  "add_documents E vs documents w =
     (let d = vs_persist_directory vs; c = vs_collection_name vs;
          w1 = log (Call_add_documents d c documents) w in
      case add_documents_fault E w vs documents of
        Some e \<Rightarrow> (Inl e, w1)
      | None \<Rightarrow> (Inr (), add_records d c documents w1))"

definition from_documents ::
  "env \<Rightarrow> document list \<Rightarrow> embeddings \<Rightarrow> string \<Rightarrow> string \<Rightarrow> world \<Rightarrow> (exn + chroma) \<times> world" where
  "from_documents E documents emb d c w =
     (let w1 = log (Call_from_documents d c documents) w in
      case from_documents_fault E w d c documents of
        Some e \<Rightarrow> (Inl e, w1)
      | None \<Rightarrow>
          (Inr \<lparr>vs_persist_directory = d, vs_collection_name = c, vs_embedding_function = emb\<rparr>,
           add_records d c documents (get_or_create_collection d c w1)))"

subsection \<open>\<open>get_or_create_vector_store\<close> and \<open>get_vector_store_retriever\<close>\<close>

text \<open>The \<open>except\<close> block: a new store from the documents, or \<open>None\<close> without documents.\<close>

definition create_after_error ::
  "env \<Rightarrow> document list \<Rightarrow> embeddings \<Rightarrow> string \<Rightarrow> string \<Rightarrow> world \<Rightarrow> (exn + chroma option) \<times> world" where
  "create_after_error E documents emb d c w =
     (if documents \<noteq> [] then
        (case from_documents E documents emb d c w of
           (Inl e, w1) \<Rightarrow> (Inl e, w1)
         | (Inr vector_store, w1) \<Rightarrow> (Inr (Some vector_store), w1))
      else (Inr None, w))"

definition get_or_create_vector_store ::
  "env \<Rightarrow> document list \<Rightarrow> embeddings \<Rightarrow> string \<Rightarrow> string \<Rightarrow> bool \<Rightarrow> world
     \<Rightarrow> (exn + chroma option) \<times> world" where
  "get_or_create_vector_store E documents emb d c force_recreate w =
     (let w1 = os_makedirs d w;
          w2 = (if force_recreate \<and> os_path_exists d w1
                then os_makedirs d (shutil_rmtree d w1) else w1)
      in case Chroma E d emb c w2 of
           (Inl e, w3) \<Rightarrow> create_after_error E documents emb d c w3
         | (Inr vector_store, w3) \<Rightarrow>
             if \<not> force_recreate \<and> documents \<noteq> [] then
               (if documents \<noteq> [] then
                  (case add_documents E vector_store documents w3 of
                     (Inl e, w4) \<Rightarrow> create_after_error E documents emb d c w4
                   | (Inr u, w4) \<Rightarrow> (Inr (Some vector_store), w4))
                else (Inr (Some vector_store), w3))
             else if documents \<noteq> [] then
               (case from_documents E documents emb d c w3 of
                  (Inl e, w4) \<Rightarrow> create_after_error E documents emb d c w4
                | (Inr created, w4) \<Rightarrow> (Inr (Some created), w4))
             else (Inr (Some vector_store), w3))"

record retriever =
  r_vectorstore :: chroma
  r_k :: nat

definition get_vector_store_retriever ::
  "env \<Rightarrow> embeddings \<Rightarrow> string \<Rightarrow> string \<Rightarrow> nat \<Rightarrow> world \<Rightarrow> retriever option \<times> world" where
  "get_vector_store_retriever E emb d c k w =
     (case Chroma E d emb c w of
        (Inl e, w1) \<Rightarrow> (None, w1)
      | (Inr vector_store, w1) \<Rightarrow>
          (Some \<lparr>r_vectorstore = vector_store, r_k = k\<rparr>, log (Call_as_retriever k) w1))"

text \<open>A query of the retriever: the \<open>k\<close> best records of the collection as it is then.\<close>

definition retriever_invoke ::
  "env \<Rightarrow> retriever \<Rightarrow> string \<Rightarrow> world \<Rightarrow> (exn + document list) \<times> world" where
  "retriever_invoke E r query w =
     (let vs = r_vectorstore r in
      (similarity_search E (vs_embedding_function vs)
         (collection w (vs_persist_directory vs) (vs_collection_name vs)) (r_k r) query,
       log (Call_retrieve query) w))"

section \<open>rag\_chain.py\<close>

definition RAG_PROMPT_TEMPLATE :: string where
  "RAG_PROMPT_TEMPLATE =
     ''\<newline>'' @
     ''You are a helpful assistant providing information about company products.\<newline>'' @
     ''Answer the following question based ONLY on the provided context.\<newline>'' @
     ''If the answer is not in the context, state that you don't have enough information.\<newline>'' @
     ''Keep your answer concise and to the point.\<newline>'' @
     ''\<newline>'' @
     ''Context:\<newline>'' @
     ''{context}\<newline>'' @
     ''\<newline>'' @
     ''Question: {question}\<newline>'' @
     ''\<newline>'' @
     ''Answer:\<newline>''"

text \<open>\<open>sep.join(xs)\<close> of Python.\<close>

fun join :: "string \<Rightarrow> string list \<Rightarrow> string" where
  "join sep [] = []"
| "join sep [x] = x"
| "join sep (x # y # ys) = x @ sep @ join sep (y # ys)"

definition format_docs :: "document list \<Rightarrow> string" where
  "format_docs docs = join ''\<newline>\<newline>'' (map page_content docs)"

text \<open>
  Filling an f-string template from a dictionary: text outside braces is copied, a field
  \<open>{name}\<close> is replaced by the value of \<open>name\<close>, and the values are not read again.  The
  second argument is the name of the field being read, if any.  Doubled braces, which the
  template of this program does not use, are not modelled.
\<close>

fun format_template :: "(string \<times> string) list \<Rightarrow> string option \<Rightarrow> string \<Rightarrow> exn + string" where
  "format_template kwargs None [] = Inr []"
| "format_template kwargs (Some name) [] = Inl (Exception ''expected '}' before end of string'')"
| "format_template kwargs None (c # cs) =
     (if c = CHR ''{'' then format_template kwargs (Some []) cs
      else if c = CHR ''}'' then Inl (Exception ''Single '}' encountered in format string'')
      else (case format_template kwargs None cs of
              Inl e \<Rightarrow> Inl e
            | Inr text \<Rightarrow> Inr (c # text)))"
| "format_template kwargs (Some name) (c # cs) =
     (if c = CHR ''}'' then
        (case map_of kwargs name of
           None \<Rightarrow> Inl (Exception name)
         | Some v \<Rightarrow>
             (case format_template kwargs None cs of
                Inl e \<Rightarrow> Inl e
              | Inr text \<Rightarrow> Inr (v @ text)))
      else format_template kwargs (Some (name @ [c])) cs)"

definition Ollama :: "env \<Rightarrow> string \<Rightarrow> string \<Rightarrow> world \<Rightarrow> (exn + ollama) \<times> world" where
  "Ollama E url name w =
     (let w1 = log (Call_Ollama url name) w in
      case Ollama_fault E url name of
        Some e \<Rightarrow> (Inl e, w1)
      | None \<Rightarrow> (Inr \<lparr>base_url = url, model = name\<rparr>, w1))"

text \<open>
  \<open>len(vector_store)\<close>: the number of records of the collection of the store.  The test
  \<open>if not vector_store\<close> of \<open>initialize_rag_chain\<close> holds for \<open>None\<close> and for a store of
  length 0.
\<close>

definition Chroma_len :: "world \<Rightarrow> chroma \<Rightarrow> nat" where
  "Chroma_len w vs = length (collection w (vs_persist_directory vs) (vs_collection_name vs))"

text \<open>The composed chain: the retriever, the prompt template and the model.\<close>

record chain =
  chain_retriever :: retriever
  chain_prompt :: string
  chain_llm :: ollama

definition initialize_rag_chain :: "env \<Rightarrow> world \<Rightarrow> (exn + chain option) \<times> world" where
  "initialize_rag_chain E w =
     (case get_embedding_model E w of
        (None, w1) \<Rightarrow> (Inr None, w1)
      | (Some embedding_model, w1) \<Rightarrow>
          (case get_processed_documents E w1 of
             (Inl e, w2) \<Rightarrow> (Inl e, w2)
           | (Inr processed_documents, w2) \<Rightarrow>
               (case get_or_create_vector_store E processed_documents embedding_model
                       (CHROMA_DB_PATH E) CHROMA_COLLECTION_NAME False w2 of
                  (Inl e, w3) \<Rightarrow> (Inl e, w3)
                | (Inr None, w3) \<Rightarrow> (Inr None, w3)
                | (Inr (Some vector_store), w3) \<Rightarrow>
                    if Chroma_len w3 vector_store = 0 then (Inr None, w3)
                    else
                    (case get_vector_store_retriever E embedding_model
                            (CHROMA_DB_PATH E) CHROMA_COLLECTION_NAME TOP_K_RETRIEVAL w3 of
                       (None, w4) \<Rightarrow> (Inr None, w4)
                     | (Some retriever, w4) \<Rightarrow>
                         (case Ollama E OLLAMA_BASE_URL OLLAMA_MODEL_NAME w4 of
                            (Inl e, w5) \<Rightarrow> (Inr None, w5)
                          | (Inr llm, w5) \<Rightarrow>
                              (Inr (Some \<lparr>chain_retriever = retriever,
                                          chain_prompt = RAG_PROMPT_TEMPLATE,
                                          chain_llm = llm\<rparr>), w5))))))"

text \<open>
  The steps of the chain before the model: the retriever and \<open>format_docs\<close> give the
  context, the question is passed through, and the template is filled with both.
\<close>

definition chain_prompt_value :: "env \<Rightarrow> chain \<Rightarrow> string \<Rightarrow> world \<Rightarrow> (exn + string) \<times> world" where
  "chain_prompt_value E ch question w =
     (case retriever_invoke E (chain_retriever ch) question w of
        (Inl e, w1) \<Rightarrow> (Inl e, w1)
      | (Inr docs, w1) \<Rightarrow>
          (format_template [(''context'', format_docs docs), (''question'', question)] None
             (chain_prompt ch), w1))"

text \<open>
  The template is a chat template with one human message, and the model is a text
  completion model: the prompt value is given to it as text, which for a human message is
  \<open>Human: \<close> followed by the content of the message.
\<close>

definition to_string :: "string \<Rightarrow> string" where
  "to_string human_message = ''Human: '' @ human_message"

text \<open>
  The blocking call of the model client reads the streaming endpoint to its end and
  returns the fragments added up; an exception of the stream leaves the call.
\<close>

definition llm_invoke :: "env \<Rightarrow> ollama \<Rightarrow> string \<Rightarrow> exn + string" where
  "llm_invoke E llm p =
     (case llm_stream E llm p of
        (fragments, None) \<Rightarrow> Inr (foldl (@) [] fragments)
      | (fragments, Some e) \<Rightarrow> Inl e)"

text \<open>\<open>StrOutputParser\<close> returns the text of the model as it is.\<close>

definition StrOutputParser :: "string \<Rightarrow> string" where
  "StrOutputParser text = text"

text \<open>\<open>rag_chain.invoke(question)\<close>: one blocking call.\<close>

definition rag_chain_invoke :: "env \<Rightarrow> chain \<Rightarrow> string \<Rightarrow> world \<Rightarrow> (exn + string) \<times> world" where
  "rag_chain_invoke E ch question w =
     (case chain_prompt_value E ch question w of
        (Inl e, w1) \<Rightarrow> (Inl e, w1)
      | (Inr prompt_value, w1) \<Rightarrow>
          (let p = to_string prompt_value in
           case llm_invoke E (chain_llm ch) p of
             Inl e \<Rightarrow> (Inl e, log (Call_llm p) w1)
           | Inr text \<Rightarrow> (Inr (StrOutputParser text), log (Call_llm p) w1)))"

text \<open>
  \<open>rag_chain.stream(question)\<close>: the fragments yielded, and the exception that ended the
  iteration if one did.
\<close>

definition rag_chain_stream ::
  "env \<Rightarrow> chain \<Rightarrow> string \<Rightarrow> world \<Rightarrow> (string list \<times> exn option) \<times> world" where
  "rag_chain_stream E ch question w =
     (case chain_prompt_value E ch question w of
        (Inl e, w1) \<Rightarrow> (([], Some e), w1)
      | (Inr prompt_value, w1) \<Rightarrow>
          (let p = to_string prompt_value in
           case llm_stream E (chain_llm ch) p of
             (fragments, fault) \<Rightarrow>
               ((map StrOutputParser fragments, fault), log (Call_llm p) w1)))"

section \<open>chatbot\_app.py\<close>

record message =
  role :: string
  content :: string

text \<open>
  What outlives a run of the script: the value \<open>st.cache_resource\<close> keeps for
  \<open>setup_rag_chain\<close> (\<open>None\<close> before the first call that returned) and the messages of the
  session state.  A run of the script is given what the user did: a chat input or none,
  and whether the button was pressed.
\<close>

record app =
  cache :: "chain option option"
  messages :: "message list"

record ui =
  chat_input :: "string option"
  clear_chat :: bool

definition setup_rag_chain :: "env \<Rightarrow> app \<Rightarrow> world \<Rightarrow> (exn + chain option) \<times> app \<times> world" where
  "setup_rag_chain E a w =
     (case cache a of
        Some rag_chain \<Rightarrow> (Inr rag_chain, a, w)
      | None \<Rightarrow>
          (case initialize_rag_chain E w of
             (Inl e, w1) \<Rightarrow> (Inl e, a, w1)
           | (Inr rag_chain, w1) \<Rightarrow> (Inr rag_chain, a\<lparr>cache := Some rag_chain\<rparr>, w1)))"

text \<open>The assistant's part of a turn: the value of \<open>full_response\<close>.\<close>

definition respond :: "env \<Rightarrow> chain option \<Rightarrow> string \<Rightarrow> world \<Rightarrow> string \<times> world" where
  "respond E rag_chain prompt w =
     (case rag_chain of
        Some ch \<Rightarrow>
          (case rag_chain_stream E ch prompt w of
             ((fragments, None), w1) \<Rightarrow> (foldl (@) [] fragments, w1)
           | ((fragments, Some e), w1) \<Rightarrow>
               (''An error occurred: '' @ str e @
                ''. Please check the console and ensure Ollama is running.'', w1))
      | None \<Rightarrow> (''Chatbot is not initialized. Please check the setup messages above.'', w))"

text \<open>
  One run of the script.  An exception of \<open>setup_rag_chain\<close> ends the run; otherwise the
  run handles the chat input, if there is a non-empty one, and then the button.
\<close>

definition script_run :: "env \<Rightarrow> ui \<Rightarrow> app \<Rightarrow> world \<Rightarrow> exn option \<times> app \<times> world" where
  "script_run E u a w =
     (case setup_rag_chain E a w of
        (Inl e, a1, w1) \<Rightarrow> (Some e, a1, w1)
      | (Inr rag_chain, a1, w1) \<Rightarrow>
          (case (case chat_input u of
                   None \<Rightarrow> (a1, w1)
                 | Some prompt \<Rightarrow>
                     if prompt = [] then (a1, w1)
                     else (case respond E rag_chain prompt w1 of
                             (full_response, w2) \<Rightarrow>
                               (a1\<lparr>messages := messages a1 @
                                    [\<lparr>role = ''user'', content = prompt\<rparr>,
                                     \<lparr>role = ''assistant'', content = full_response\<rparr>]\<rparr>, w2))) of
             (a2, w2) \<Rightarrow>
               (None, if clear_chat u then a2\<lparr>messages := []\<rparr> else a2, w2)))"

text \<open>Successive runs of the script in one process; the outside may change between runs.\<close>

fun run_session :: "(env \<times> ui) list \<Rightarrow> app \<Rightarrow> world \<Rightarrow> app \<times> world" where
  "run_session [] a w = (a, w)"
| "run_session ((E, u) # runs) a w =
     (case script_run E u a w of (x, a1, w1) \<Rightarrow> run_session runs a1 w1)"

section \<open>Notions of the statements\<close>

text \<open>
  The loader as the specification describes it, written without the code's chain of
  tests: the supported extensions are \<open>.pdf\<close>, \<open>.txt\<close>, \<open>.md\<close> and \<open>.markdown\<close>; a PDF
  file is read by the PDF loader, a \<open>.txt\<close> file by the text loader and a Markdown file by
  the Markdown loader, each given the path of the file.  A file is loadable when its
  extension is supported and its loader is built and loads it.
\<close>

definition walk_files :: "(string \<times> string list) list \<Rightarrow> (string \<times> string) list" where
  "walk_files walk = concat (map (\<lambda>(root, files). map (Pair root) files) walk)"

definition supported_extensions :: "string list" where
  "supported_extensions = [''.pdf'', ''.txt'', ''.md'', ''.markdown'']"

definition supported :: "string \<Rightarrow> bool" where
  "supported file_name \<longleftrightarrow> list_ex (endswith file_name) supported_extensions"

definition loader_of :: "string \<times> string \<Rightarrow> loader" where
  "loader_of rf =
     (let file_path = os_path_join (fst rf) (snd rf) in
      if endswith (snd rf) ''.pdf'' then PyPDFLoader file_path
      else if endswith (snd rf) ''.txt'' then TextLoader file_path
      else UnstructuredMarkdownLoader file_path)"

definition loadable :: "env \<Rightarrow> string \<times> string \<Rightarrow> bool" where
  "loadable E rf \<longleftrightarrow>
     supported (snd rf) \<and> construct_fault E (loader_of rf) = None \<and>
     (case load E (loader_of rf) of Inl e \<Rightarrow> False | Inr loaded \<Rightarrow> True)"

text \<open>What a supported file whose loader is built adds to the result.\<close>

definition loaded_from :: "env \<Rightarrow> string \<times> string \<Rightarrow> document list" where
  "loaded_from E rf =
     (if supported (snd rf)
      then (case load E (loader_of rf) of Inl e \<Rightarrow> [] | Inr loaded \<Rightarrow> loaded)
      else [])"

definition only_supported :: "(string \<times> string list) list \<Rightarrow> (string \<times> string list) list" where
  "only_supported walk = map (\<lambda>(root, files). (root, filter supported files)) walk"

text \<open>
  The text of \<open>RAG_PROMPT_TEMPLATE\<close> with a context block and a question in the place of
  its two fields.
\<close>

definition filled_template :: "string \<Rightarrow> string \<Rightarrow> string" where
  "filled_template context_block question =
     ''\<newline>'' @
     ''You are a helpful assistant providing information about company products.\<newline>'' @
     ''Answer the following question based ONLY on the provided context.\<newline>'' @
     ''If the answer is not in the context, state that you don't have enough information.\<newline>'' @
     ''Keep your answer concise and to the point.\<newline>'' @
     ''\<newline>'' @
     ''Context:\<newline>'' @
     context_block @ ''\<newline>'' @
     ''\<newline>'' @
     ''Question: '' @ question @ ''\<newline>'' @
     ''\<newline>'' @
     ''Answer:\<newline>''"

text \<open>
  The calls that delete a directory, and the relation between the outside before and
  after a step that deletes nothing: every collection is a prefix of what it becomes and
  no deleting call was added.
\<close>

fun is_rmtree :: "call \<Rightarrow> bool" where
  "is_rmtree (Call_shutil_rmtree p) = True"
| "is_rmtree c = False"

definition grows :: "world \<Rightarrow> world \<Rightarrow> bool" where
  "grows w w' \<longleftrightarrow>
     (\<forall>d c. prefix (collection w d c) (collection w' d c)) \<and>
     filter is_rmtree (calls w') = filter is_rmtree (calls w)"

section \<open>Values of the examples\<close>

text \<open>
  An outside with no index and no call made yet, and one in which nothing fails: no
  file in any directory, a search that returns the first \<open>k\<close> records and a model that
  answers \<open>ok\<close> in two fragments.
\<close>

definition world0 :: world where
  "world0 = \<lparr>disk = (\<lambda>d. None), calls = []\<rparr>"

definition E0 :: env where
  "E0 = \<lparr>PROJECT_ROOT = ''/app'',
          os_walk = (\<lambda>d. []),
          construct_fault = (\<lambda>l. None),
          load = (\<lambda>l. Inr []),
          split_text = (\<lambda>size overlap ds. ds),
          embeddings_fault = (\<lambda>n. None),
          Chroma_fault = (\<lambda>w d c. None),
          add_documents_fault = (\<lambda>w v ds. None),
          from_documents_fault = (\<lambda>w d c ds. None),
          Ollama_fault = (\<lambda>u m. None),
          similarity_search = (\<lambda>emb records k q. Inr (take k records)),
          llm_stream = (\<lambda>llm p. ([''o'', ''k''], None))\<rparr>"

definition doc :: "string \<Rightarrow> document" where
  "doc t = \<lparr>page_content = t, metadata = []\<rparr>"

text \<open>
  Outsides for the loading of documents.  Each directory holds one file of each supported
  extension and one unsupported file.  In \<open>E3\<close> every file loads and the PDF file has two
  pages; in \<open>E3a\<close> every loader returns one Document and the text file fails to load.  In
  \<open>E6\<close> the directory holds a text file, a \<open>.pdf\<close> entry that is not a regular file (a
  link to a file that is gone), for which the constructor of the PDF loader raises, and a
  Markdown file.
\<close>

definition E3 :: env where
  "E3 = E0\<lparr>os_walk := (\<lambda>d. [(d, [''a.pdf'', ''b.txt'', ''c.md'', ''d.markdown'', ''e.docx''])]),
           load := (\<lambda>l. case l of
                          PyPDFLoader p \<Rightarrow> Inr [doc ''page 1'', doc ''page 2'']
                        | TextLoader p \<Rightarrow> Inr [doc p]
                        | UnstructuredMarkdownLoader p \<Rightarrow> Inr [doc p])\<rparr>"

definition E3a :: env where
  "E3a = E0\<lparr>os_walk := (\<lambda>d. [(d, [''a.pdf'', ''b.txt'', ''c.md'', ''d.markdown'', ''e.docx''])]),
            load := (\<lambda>l. case l of
                           PyPDFLoader p \<Rightarrow> Inr [doc p]
                         | TextLoader p \<Rightarrow> Inl (Exception ''invalid start byte'')
                         | UnstructuredMarkdownLoader p \<Rightarrow> Inr [doc p])\<rparr>"

definition E6 :: env where
  "E6 = E0\<lparr>os_walk := (\<lambda>d. [(d, [''a.txt'', ''broken.pdf'', ''c.md''])]),
           construct_fault := (\<lambda>l. case l of
                          PyPDFLoader p \<Rightarrow>
                            Some (Exception (''File path '' @ p @ '' is not a valid file or url''))
                        | TextLoader p \<Rightarrow> None
                        | UnstructuredMarkdownLoader p \<Rightarrow> None),
           load := (\<lambda>l. case l of
                          PyPDFLoader p \<Rightarrow> Inr [doc p]
                        | TextLoader p \<Rightarrow> Inr [doc p]
                        | UnstructuredMarkdownLoader p \<Rightarrow> Inr [doc p])\<rparr>"

text \<open>
  An outside in which the embedding model cannot be loaded, and one in which the model
  endpoint breaks the stream after a fragment.
\<close>

definition E4 :: env where
  "E4 = E0\<lparr>embeddings_fault := (\<lambda>n. Some (Exception ''no connection''))\<rparr>"

definition E5 :: env where
  "E5 = E0\<lparr>llm_stream := (\<lambda>llm p. ([''B co''], Some (Exception ''connection refused'')))\<rparr>"

text \<open>
  The chain the initialization builds under \<open>E0\<close>, and an index with two records in its
  collection.
\<close>

definition ch0 :: chain where
  "ch0 = \<lparr>chain_retriever =
            \<lparr>r_vectorstore =
               \<lparr>vs_persist_directory = ''/app/vector_store/chroma_db'',
                vs_collection_name = ''product_info_collection'',
                vs_embedding_function = HuggingFaceEmbeddings ''all-MiniLM-L6-v2''\<rparr>,
             r_k = 5\<rparr>,
          chain_prompt = RAG_PROMPT_TEMPLATE,
          chain_llm = \<lparr>base_url = ''http://localhost:11434'', model = ''tinyllama''\<rparr>\<rparr>"

definition world1 :: world where
  "world1 = \<lparr>disk = (\<lambda>d. if d = ''/app/vector_store/chroma_db''
                      then Some (\<lambda>c. if c = ''product_info_collection''
                                      then Some [doc ''A costs 100'', doc ''B costs 50'']
                                      else None)
                      else None),
         calls = []\<rparr>"

text \<open>
  States of the application: before the first run, after a failed initialization (with
  one and with two turns), and with an initialized chain (without and with an earlier
  exchange).
\<close>

definition say :: "string \<Rightarrow> ui" where
  "say prompt = \<lparr>chat_input = Some prompt, clear_chat = False\<rparr>"

definition not_initialized :: string where
  "not_initialized = ''Chatbot is not initialized. Please check the setup messages above.''"

definition app0 :: app where
  "app0 = \<lparr>cache = None, messages = []\<rparr>"

definition app_failed :: app where
  "app_failed = \<lparr>cache = Some None,
         messages = [\<lparr>role = ''user'', content = ''hi''\<rparr>,
                     \<lparr>role = ''assistant'', content = not_initialized\<rparr>]\<rparr>"

definition app_failed2 :: app where
  "app_failed2 = \<lparr>cache = Some None,
          messages = [\<lparr>role = ''user'', content = ''hi''\<rparr>,
                      \<lparr>role = ''assistant'', content = not_initialized\<rparr>,
                      \<lparr>role = ''user'', content = ''again''\<rparr>,
                      \<lparr>role = ''assistant'', content = not_initialized\<rparr>]\<rparr>"

definition world_failed :: world where
  "world_failed = \<lparr>disk = (\<lambda>d. None), calls = [Call_HuggingFaceEmbeddings ''all-MiniLM-L6-v2'']\<rparr>"

definition app_ready :: app where
  "app_ready = \<lparr>cache = Some (Some ch0), messages = []\<rparr>"

definition app_ready2 :: app where
  "app_ready2 = \<lparr>cache = Some (Some ch0),
          messages = [\<lparr>role = ''user'', content = ''what is B?''\<rparr>,
                      \<lparr>role = ''assistant'', content = ''B is a product''\<rparr>]\<rparr>"

section \<open>Loading documents\<close>

text \<open>
  The chain of tests of the code chooses the loader the specification names, and skips
  exactly the files whose extension is not supported.  Files that are skipped change
  neither the result nor the calls.  When every constructor returns, the loops add to the
  result what each file gives: nothing for a file that is skipped or whose \<open>load()\<close>
  raises, the loader's list otherwise.
\<close>

lemma supported_iff:
  "supported f \<longleftrightarrow>
     endswith f ''.pdf'' \<or> endswith f ''.txt'' \<or> endswith f ''.md'' \<or> endswith f ''.markdown''"
  by (simp add: supported_def supported_extensions_def)

lemma select_loader_spec:
  "select_loader (os_path_join root f) f =
     (if supported f then Some (loader_of (root, f)) else None)"
  by (simp add: select_loader_def supported_iff loader_of_def Let_def)

lemma load_files_filter_supported:
  "load_files E root (filter supported files) (documents, w) =
   load_files E root files (documents, w)"
proof (induction files arbitrary: documents w)
  case Nil
  show ?case by simp
next
  case (Cons f files)
  show ?case
    by (simp add: select_loader_spec Cons.IH Let_def split: option.split sum.split)
qed

lemma load_walk_only_supported:
  "load_walk E (only_supported walk) (documents, w) = load_walk E walk (documents, w)"
proof (induction walk arbitrary: documents w)
  case Nil
  show ?case by (simp add: only_supported_def)
next
  case (Cons rf walk)
  obtain root files where rf: "rf = (root, files)" by (cases rf)
  have "only_supported ((root, files) # walk) =
          (root, filter supported files) # only_supported walk"
    by (simp add: only_supported_def)
  then show ?case
    by (simp add: rf load_files_filter_supported Cons.IH split: prod.split sum.split)
qed

lemma load_files_docs:
  assumes "\<forall>f \<in> set files. supported f \<longrightarrow> construct_fault E (loader_of (root, f)) = None"
  shows "fst (load_files E root files (documents, w)) =
           Inr (documents @ concat (map (\<lambda>f. loaded_from E (root, f)) files))"
  using assms
proof (induction files arbitrary: documents w)
  case Nil
  show ?case by simp
next
  case (Cons f files)
  then show ?case
    by (simp add: select_loader_spec loaded_from_def Let_def split: sum.split)
qed

lemma load_walk_docs:
  assumes "\<forall>rf \<in> set (walk_files walk). supported (snd rf) \<longrightarrow> construct_fault E (loader_of rf) = None"
  shows "fst (load_walk E walk (documents, w)) =
           Inr (documents @ concat (map (loaded_from E) (walk_files walk)))"
  using assms
proof (induction walk arbitrary: documents w)
  case Nil
  show ?case by (simp add: walk_files_def)
next
  case (Cons rf walk)
  obtain root files where rf: "rf = (root, files)" by (cases rf)
  obtain r w' where s: "load_files E root files (documents, w) = (r, w')"
    by (cases "load_files E root files (documents, w)")
  have "\<forall>f \<in> set files. supported f \<longrightarrow> construct_fault E (loader_of (root, f)) = None"
    using Cons.prems by (auto simp: rf walk_files_def)
  from load_files_docs [OF this, of documents w] s
  have r: "r = Inr (documents @ concat (map (\<lambda>f. loaded_from E (root, f)) files))"
    by simp
  have "\<forall>rf \<in> set (walk_files walk). supported (snd rf) \<longrightarrow> construct_fault E (loader_of rf) = None"
    using Cons.prems by (auto simp: rf walk_files_def)
  from Cons.IH [OF this] show ?case
    by (simp add: rf s r walk_files_def comp_def)
qed

lemma length_concat_loaded:
  assumes "\<forall>rf \<in> set rfs. supported (snd rf) \<longrightarrow> construct_fault E (loader_of rf) = None"
      and "\<forall>rf \<in> set rfs. loadable E rf \<longrightarrow> length (loaded_from E rf) = 1"
  shows "length (concat (map (loaded_from E) rfs)) = length (filter (loadable E) rfs)"
  using assms
proof (induction rfs)
  case Nil
  show ?case by simp
next
  case (Cons rf rfs)
  have "loaded_from E rf = []" if "\<not> loadable E rf"
    using that Cons.prems(1)
    by (auto simp: loadable_def loaded_from_def split: sum.splits)
  with Cons show ?case by auto
qed

text \<open>
  C3, as amended.  \<open>load_documents\<close> extends its result with the whole list a loader
  returns.  In a directory where the constructor of every supported file's loader returns
  and every loader that loads its file returns exactly one Document, \<open>load_documents\<close>
  returns a list with exactly one Document per loadable supported file.  In every
  directory, files with unsupported extensions contribute nothing: \<open>load_documents\<close> does
  what it does on the same walk with those files taken out.
\<close>

theorem one_document_per_loadable_file:
  "((\<forall>rf \<in> set (walk_files (os_walk E directory)).
       supported (snd rf) \<longrightarrow> construct_fault E (loader_of rf) = None) \<longrightarrow>
    (\<forall>rf \<in> set (walk_files (os_walk E directory)).
       loadable E rf \<longrightarrow> length (loaded_from E rf) = 1) \<longrightarrow>
    (\<exists>documents. fst (load_documents E directory w) = Inr documents \<and>
       length documents = length (filter (loadable E) (walk_files (os_walk E directory))))) \<and>
   load_documents E directory w =
     load_documents (E\<lparr>os_walk := (\<lambda>d. only_supported (os_walk E directory))\<rparr>) directory w"
proof (intro conjI impI)
  assume c: "\<forall>rf \<in> set (walk_files (os_walk E directory)).
       supported (snd rf) \<longrightarrow> construct_fault E (loader_of rf) = None"
    and l: "\<forall>rf \<in> set (walk_files (os_walk E directory)).
       loadable E rf \<longrightarrow> length (loaded_from E rf) = 1"
  have "fst (load_documents E directory w) =
      Inr (concat (map (loaded_from E) (walk_files (os_walk E directory))))"
    using load_walk_docs [OF c] by (simp add: load_documents_def)
  with length_concat_loaded [OF c l]
  show "\<exists>documents. fst (load_documents E directory w) = Inr documents \<and>
       length documents = length (filter (loadable E) (walk_files (os_walk E directory)))"
    by simp
next
  show "load_documents E directory w =
     load_documents (E\<lparr>os_walk := (\<lambda>d. only_supported (os_walk E directory))\<rparr>) directory w"
  proof -
    have "load_walk (E\<lparr>os_walk := f\<rparr>) walk s = load_walk E walk s" for f walk s
    proof (induction walk arbitrary: s)
      case Nil
      show ?case by (cases s) simp
    next
      case (Cons rf walk)
      obtain root files where rf: "rf = (root, files)" by (cases rf)
      have "load_files (E\<lparr>os_walk := f\<rparr>) root files s = load_files E root files s" for s
      proof (induction files arbitrary: s)
        case Nil
        show ?case by (cases s) simp
      next
        case (Cons f files)
        obtain documents w where s: "s = (documents, w)" by (cases s)
        show ?case
          by (simp add: s Cons.IH Let_def split: option.split sum.split)
      qed
      then show ?case
        by (simp add: rf Cons.IH split: prod.split sum.split)
    qed
    then show ?thesis
      by (simp add: load_documents_def load_walk_only_supported)
  qed
qed

lemma walk_E3a:
  "walk_files (os_walk E3a ''docs'') =
     [(''docs'', ''a.pdf''), (''docs'', ''b.txt''), (''docs'', ''c.md''),
      (''docs'', ''d.markdown''), (''docs'', ''e.docx'')]"
  by (simp add: E3a_def E0_def walk_files_def)

text \<open>
  An instance: one file of each supported extension and one unsupported file; the text
  file fails to load and the other three give a Document each.
\<close>

theorem one_document_per_loadable_file_witness:
  "filter (loadable E3a) (walk_files (os_walk E3a ''docs'')) =
     [(''docs'', ''a.pdf''), (''docs'', ''c.md''), (''docs'', ''d.markdown'')] \<and>
   (\<exists>documents. fst (load_documents E3a ''docs'' world0) = Inr documents \<and>
      length documents = 3) \<and>
   only_supported (os_walk E3a ''docs'') =
     [(''docs'', [''a.pdf'', ''b.txt'', ''c.md'', ''d.markdown''])] \<and>
   load_documents E3a ''docs'' world0 =
     load_documents
       (E3a\<lparr>os_walk := (\<lambda>d. [(''docs'', [''a.pdf'', ''b.txt'', ''c.md'', ''d.markdown''])])\<rparr>)
       ''docs'' world0"
proof -
  have c: "\<forall>rf \<in> set (walk_files (os_walk E3a ''docs'')).
       supported (snd rf) \<longrightarrow> construct_fault E3a (loader_of rf) = None"
    by (simp add: E3a_def E0_def)
  have l: "\<forall>rf \<in> set (walk_files (os_walk E3a ''docs'')).
       loadable E3a rf \<longrightarrow> length (loaded_from E3a rf) = 1"
    by (simp add: walk_E3a)
       (simp add: E3a_def E0_def loadable_def loaded_from_def loader_of_def supported_iff
          endswith_def os_path_join_def)
  have f: "filter (loadable E3a) (walk_files (os_walk E3a ''docs'')) =
     [(''docs'', ''a.pdf''), (''docs'', ''c.md''), (''docs'', ''d.markdown'')]"
    by (simp add: walk_E3a)
       (simp add: E3a_def E0_def loadable_def loader_of_def supported_iff
          endswith_def os_path_join_def)
  have s: "only_supported (os_walk E3a ''docs'') =
     [(''docs'', [''a.pdf'', ''b.txt'', ''c.md'', ''d.markdown''])]"
    by (simp add: E3a_def E0_def only_supported_def supported_iff endswith_def)
  note t = one_document_per_loadable_file [of E3a "''docs''" world0]
  from t c l have "\<exists>documents. fst (load_documents E3a ''docs'' world0) = Inr documents \<and>
       length documents = length (filter (loadable E3a) (walk_files (os_walk E3a ''docs'')))"
    by blast
  then have a: "\<exists>documents. fst (load_documents E3a ''docs'' world0) = Inr documents \<and>
       length documents = 3"
    by (auto simp: f)
  from t have "load_documents E3a ''docs'' world0 =
     load_documents (E3a\<lparr>os_walk := (\<lambda>d. only_supported (os_walk E3a ''docs''))\<rparr>)
       ''docs'' world0"
    by (rule conjunct2)
  then have b: "load_documents E3a ''docs'' world0 =
     load_documents
       (E3a\<lparr>os_walk := (\<lambda>d. [(''docs'', [''a.pdf'', ''b.txt'', ''c.md'', ''d.markdown''])])\<rparr>)
       ''docs'' world0"
    by (simp only: s)
  show ?thesis
    by (intro conjI) (rule f, rule a, rule s, rule b)
qed

text \<open>
  C3 as stated fails where a loader returns more than one Document.  A directory holds
  one file of each supported extension and one unsupported file; the PDF loader returns
  two Documents, one per page, and the other loaders one each.  All four supported files
  are loadable, and \<open>load_documents\<close> returns five Documents.
\<close>

theorem pdf_pages_counterexample:
  "fst (load_documents E3 ''docs'' world0) =
     Inr [doc ''page 1'', doc ''page 2'', doc ''docs/b.txt'', doc ''docs/c.md'',
          doc ''docs/d.markdown''] \<and>
   filter (loadable E3) (walk_files (os_walk E3 ''docs'')) =
     [(''docs'', ''a.pdf''), (''docs'', ''b.txt''), (''docs'', ''c.md''),
      (''docs'', ''d.markdown'')]"
  by (simp add: load_documents_def E3_def E0_def walk_files_def loadable_def loader_of_def
      supported_iff select_loader_def endswith_def os_path_join_def Let_def)

text \<open>
  C6, at an input where the code departs from it.  The claim is that a load failure of
  one file is caught, that the file contributes nothing and that loading goes on with the
  other files.  The directory holds \<open>a.txt\<close>, \<open>broken.pdf\<close>, which is not a regular file,
  and \<open>c.md\<close>.  The constructor of the PDF loader raises for \<open>broken.pdf\<close>, before the
  \<open>try\<close> block: \<open>load_documents\<close> and \<open>get_processed_documents\<close> leave with that
  exception, where the same directory without the entry gives the Documents of the other
  two files.
\<close>

theorem constructor_failure_aborts_the_load:
  "fst (load_documents E6 ''docs'' world0) =
     Inl (Exception ''File path docs/broken.pdf is not a valid file or url'') \<and>
   fst (get_processed_documents E6 world0) =
     Inl (Exception ''File path /app/data/product_docs/broken.pdf is not a valid file or url'') \<and>
   fst (load_documents (E6\<lparr>os_walk := (\<lambda>d. [(d, [''a.txt'', ''c.md''])])\<rparr>) ''docs'' world0) =
     Inr [doc ''docs/a.txt'', doc ''docs/c.md'']"
  by (simp add: load_documents_def get_processed_documents_def E6_def E0_def
      select_loader_def endswith_def os_path_join_def Let_def PRODUCT_DOCS_DIR_def DATA_DIR_def)

section \<open>The embedding model\<close>

text \<open>
  C4.  When \<open>HuggingFaceEmbeddings\<close> raises, \<open>get_embedding_model\<close> returns \<open>None\<close> and
  \<open>initialize_rag_chain\<close> returns \<open>None\<close> at once: the only call made is the one that
  failed, and the index is as before.
\<close>

theorem missing_embedding_model_aborts:
  assumes "embeddings_fault E EMBEDDING_MODEL_NAME = Some e"
  shows "fst (get_embedding_model E w) = None \<and>
         initialize_rag_chain E w =
           (Inr None, w\<lparr>calls := calls w @ [Call_HuggingFaceEmbeddings EMBEDDING_MODEL_NAME]\<rparr>)"
  using assms by (simp add: initialize_rag_chain_def get_embedding_model_def log_def)

text \<open>
  An instance: the model cannot be downloaded.
\<close>

theorem missing_embedding_model_aborts_witness:
  "embeddings_fault E4 EMBEDDING_MODEL_NAME = Some (Exception ''no connection'') \<and>
   initialize_rag_chain E4 world0 =
     (Inr None, \<lparr>disk = (\<lambda>d. None), calls = [Call_HuggingFaceEmbeddings ''all-MiniLM-L6-v2'']\<rparr>)"
proof -
  have h: "embeddings_fault E4 EMBEDDING_MODEL_NAME = Some (Exception ''no connection'')"
    by (simp add: E4_def E0_def)
  from missing_embedding_model_aborts [OF h, of world0] h show ?thesis
    by (simp add: world0_def EMBEDDING_MODEL_NAME_def)
qed

section \<open>The context block and the prompt\<close>

lemma format_RAG_PROMPT_TEMPLATE:
  "format_template [(''context'', c), (''question'', q)] None RAG_PROMPT_TEMPLATE =
     Inr (filled_template c q)"
  by (simp add: RAG_PROMPT_TEMPLATE_def filled_template_def)

lemma join_Cons: "ys \<noteq> [] \<Longrightarrow> join sep (x # ys) = x @ sep @ join sep ys"
  by (cases ys) simp_all

lemma join_append:
  "xs \<noteq> [] \<Longrightarrow> ys \<noteq> [] \<Longrightarrow> join sep (xs @ ys) = join sep xs @ sep @ join sep ys"
  by (induction sep xs rule: join.induct) (simp_all add: join_Cons)

lemma chain_prompt_value_eq:
  assumes "chain_prompt ch = RAG_PROMPT_TEMPLATE"
      and "fst (retriever_invoke E (chain_retriever ch) question w) = Inr docs"
  shows "chain_prompt_value E ch question w =
           (Inr (filled_template (format_docs docs) question), log (Call_retrieve question) w)"
  using assms
  by (simp add: chain_prompt_value_def retriever_invoke_def Let_def format_RAG_PROMPT_TEMPLATE)

lemma initialized_chain_prompt:
  "fst (initialize_rag_chain E w) = Inr (Some ch) \<Longrightarrow> chain_prompt ch = RAG_PROMPT_TEMPLATE"
  by (auto simp: initialize_rag_chain_def split: prod.splits option.splits sum.splits if_splits)

text \<open>
  C7, as amended.  \<open>format_docs\<close> gives the empty text for no chunk, the text of a
  single chunk as it is, and for two non-empty sequences of chunks the two context blocks
  with exactly \<open>"\n\n"\<close> between them: the texts in retrieval order, one blank line
  between neighbours.  For a chain that \<open>initialize_rag_chain\<close> built, the prompt given to
  the model, by \<open>stream\<close> and by \<open>invoke\<close>, is \<open>Human: \<close> followed by the text of
  \<open>RAG_PROMPT_TEMPLATE\<close> with that context block in place of \<open>{context}\<close> and the
  question in place of \<open>{question}\<close>.
\<close>

theorem context_block_and_prompt:
  "format_docs [] = [] \<and>
   format_docs [d] = page_content d \<and>
   (docs1 \<noteq> [] \<longrightarrow> docs2 \<noteq> [] \<longrightarrow>
      format_docs (docs1 @ docs2) =
        format_docs docs1 @ ''\<newline>\<newline>'' @ format_docs docs2) \<and>
   (fst (initialize_rag_chain E w_init) = Inr (Some ch) \<longrightarrow>
    fst (retriever_invoke E' (chain_retriever ch) question w) = Inr docs \<longrightarrow>
      calls (snd (rag_chain_stream E' ch question w)) =
        calls w @ [Call_retrieve question,
                   Call_llm (''Human: '' @ filled_template (format_docs docs) question)] \<and>
      calls (snd (rag_chain_invoke E' ch question w)) =
        calls w @ [Call_retrieve question,
                   Call_llm (''Human: '' @ filled_template (format_docs docs) question)])"
proof (intro conjI impI)
  show "format_docs [] = []" by (simp add: format_docs_def)
  show "format_docs [d] = page_content d" by (simp add: format_docs_def)
next
  assume "docs1 \<noteq> []" and "docs2 \<noteq> []"
  then show "format_docs (docs1 @ docs2) =
      format_docs docs1 @ ''\<newline>\<newline>'' @ format_docs docs2"
    by (simp add: format_docs_def join_append)
next
  assume init: "fst (initialize_rag_chain E w_init) = Inr (Some ch)"
    and docs: "fst (retriever_invoke E' (chain_retriever ch) question w) = Inr docs"
  have p: "chain_prompt_value E' ch question w =
        (Inr (filled_template (format_docs docs) question), log (Call_retrieve question) w)"
    using initialized_chain_prompt [OF init] docs by (rule chain_prompt_value_eq)
  show "calls (snd (rag_chain_stream E' ch question w)) =
        calls w @ [Call_retrieve question,
                   Call_llm (''Human: '' @ filled_template (format_docs docs) question)]"
    by (simp add: rag_chain_stream_def p log_def to_string_def Let_def split: prod.split)
  show "calls (snd (rag_chain_invoke E' ch question w)) =
        calls w @ [Call_retrieve question,
                   Call_llm (''Human: '' @ filled_template (format_docs docs) question)]"
    by (simp add: rag_chain_invoke_def p log_def to_string_def Let_def split: sum.split)
qed

lemma initialize_E0_world1: "fst (initialize_rag_chain E0 world1) = Inr (Some ch0)"
  by (simp add: initialize_rag_chain_def get_embedding_model_def get_processed_documents_def
      load_documents_def get_or_create_vector_store_def get_vector_store_retriever_def
      Chroma_def Ollama_def E0_def world1_def ch0_def log_def Let_def os_makedirs_def
      get_or_create_collection_def CHROMA_DB_PATH_def VECTOR_STORE_DIR_def os_path_join_def
      endswith_def CHROMA_COLLECTION_NAME_def EMBEDDING_MODEL_NAME_def OLLAMA_BASE_URL_def
      OLLAMA_MODEL_NAME_def TOP_K_RETRIEVAL_def PRODUCT_DOCS_DIR_def DATA_DIR_def
      Chroma_len_def collection_def doc_def)

lemma retrieve_E0_world1:
  "fst (retriever_invoke E0 (chain_retriever ch0) q world1) =
     Inr [doc ''A costs 100'', doc ''B costs 50'']"
  by (simp add: retriever_invoke_def E0_def ch0_def world1_def collection_def Let_def)

text \<open>
  An instance: an index with two records, both retrieved, and a chain initialized on
  it.
\<close>

theorem context_block_and_prompt_witness:
  "format_docs ([doc ''A costs 100''] @ [doc ''B costs 50'']) =
     ''A costs 100'' @ ''\<newline>\<newline>'' @ ''B costs 50'' \<and>
   calls (snd (rag_chain_stream E0 ch0 ''price?'' world1)) =
     [Call_retrieve ''price?'',
      Call_llm (''Human: '' @
        filled_template (''A costs 100'' @ ''\<newline>\<newline>'' @ ''B costs 50'') ''price?'')] \<and>
   calls (snd (rag_chain_invoke E0 ch0 ''price?'' world1)) =
     [Call_retrieve ''price?'',
      Call_llm (''Human: '' @
        filled_template (''A costs 100'' @ ''\<newline>\<newline>'' @ ''B costs 50'') ''price?'')]"
proof -
  note t = context_block_and_prompt
    [of "doc ''A costs 100''" "[doc ''A costs 100'']" "[doc ''B costs 50'']" E0 world1 ch0 E0
        "''price?''" world1 "[doc ''A costs 100'', doc ''B costs 50'']"]
  have f: "format_docs [doc ''A costs 100''] = ''A costs 100''"
          "format_docs [doc ''B costs 50''] = ''B costs 50''"
    by (simp_all add: format_docs_def doc_def)
  have c: "calls world1 = []" by (simp add: world1_def)
  from t initialize_E0_world1 retrieve_E0_world1 [of "''price?''"] f c show ?thesis
    by simp
qed

text \<open>
  C7 as stated fails: the prompt given to the model is not the filled template.  For
  the chain initialized on an index with two records and the question \<open>price?\<close>, the
  model is given the filled template with \<open>Human: \<close> before it.
\<close>

theorem bare_template_counterexample:
  "fst (initialize_rag_chain E0 world1) = Inr (Some ch0) \<and>
   calls (snd (rag_chain_invoke E0 ch0 ''price?'' world1)) =
     [Call_retrieve ''price?'',
      Call_llm (''Human: '' @
        filled_template (''A costs 100'' @ ''\<newline>\<newline>'' @ ''B costs 50'') ''price?'')] \<and>
   ''Human: '' @ filled_template (''A costs 100'' @ ''\<newline>\<newline>'' @ ''B costs 50'') ''price?'' \<noteq>
     filled_template (''A costs 100'' @ ''\<newline>\<newline>'' @ ''B costs 50'') ''price?''"
proof -
  have p: "chain_prompt ch0 = RAG_PROMPT_TEMPLATE" by (simp add: ch0_def)
  have f: "format_docs [doc ''A costs 100'', doc ''B costs 50''] =
      ''A costs 100'' @ ''\<newline>\<newline>'' @ ''B costs 50''"
    by (simp add: format_docs_def doc_def)
  have c0: "calls world1 = []" by (simp add: world1_def)
  have c: "calls (snd (rag_chain_invoke E0 ch0 ''price?'' world1)) =
     [Call_retrieve ''price?'',
      Call_llm (''Human: '' @
        filled_template (''A costs 100'' @ ''\<newline>\<newline>'' @ ''B costs 50'') ''price?'')]"
    using c0
    by (simp add: rag_chain_invoke_def chain_prompt_value_eq [OF p retrieve_E0_world1] f
        to_string_def Let_def log_def split: sum.split)
  have n: "''Human: '' @ filled_template (''A costs 100'' @ ''\<newline>\<newline>'' @ ''B costs 50'') ''price?'' \<noteq>
     filled_template (''A costs 100'' @ ''\<newline>\<newline>'' @ ''B costs 50'') ''price?''"
    by (simp add: filled_template_def)
  from initialize_E0_world1 c n show ?thesis by simp
qed

section \<open>Streaming and blocking calls\<close>

lemma map_StrOutputParser: "map StrOutputParser fs = fs"
  by (induction fs) (simp_all add: StrOutputParser_def)




section \<open>The vector store\<close>

lemma collection_log [simp]: "collection (log c w) d k = collection w d k"
  by (simp add: collection_def log_def)

lemma calls_log [simp]: "calls (log c w) = calls w @ [c]"
  by (simp add: log_def)

lemma disk_log [simp]: "disk (log c w) = disk w"
  by (simp add: log_def)

lemma collection_os_makedirs [simp]: "collection (os_makedirs p w) d c = collection w d c"
  by (simp add: os_makedirs_def collection_def Let_def split: option.split)

lemma calls_os_makedirs [simp]: "calls (os_makedirs p w) = calls w @ [Call_os_makedirs p]"
  by (simp add: os_makedirs_def Let_def split: option.split)

lemma collection_get_or_create [simp]:
  "collection (get_or_create_collection p k w) d c = collection w d c"
  by (simp add: get_or_create_collection_def collection_def split: option.split)

lemma calls_get_or_create [simp]: "calls (get_or_create_collection p k w) = calls w"
  by (simp add: get_or_create_collection_def split: option.split)

lemma collection_add_records:
  "collection (add_records p k documents w) d c =
     (if d = p \<and> c = k then collection w d c @ documents else collection w d c)"
  by (simp add: add_records_def collection_def Let_def split: option.split)

lemma calls_add_records [simp]: "calls (add_records p k documents w) = calls w"
  by (simp add: add_records_def Let_def)

text \<open>
  C2.  With \<open>force_recreate=False\<close> and a non-empty list of chunks, when the store opens
  and \<open>add_documents\<close> returns, \<open>get_or_create_vector_store\<close> makes the directory, opens
  the store and calls \<open>add_documents\<close> with all the chunks; the collection is then what
  it was followed by the chunks.  Nothing is compared with what is stored: a second call
  with the same chunks leaves every chunk in the collection twice.
\<close>

theorem add_documents_appends_duplicates:
  assumes "documents \<noteq> []"
      and "\<And>w'. Chroma_fault E w' d c = None"
      and "\<And>w' vs. add_documents_fault E w' vs documents = None"
  shows "fst (get_or_create_vector_store E documents emb d c False w) =
           Inr (Some \<lparr>vs_persist_directory = d, vs_collection_name = c,
                      vs_embedding_function = emb\<rparr>) \<and>
         calls (snd (get_or_create_vector_store E documents emb d c False w)) =
           calls w @ [Call_os_makedirs d, Call_Chroma d c, Call_add_documents d c documents] \<and>
         collection (snd (get_or_create_vector_store E documents emb d c False w)) d c =
           collection w d c @ documents \<and>
         collection (snd (get_or_create_vector_store E documents emb d c False
                       (snd (get_or_create_vector_store E documents emb d c False w)))) d c =
           collection w d c @ documents @ documents"
proof -
  have once: "fst (get_or_create_vector_store E documents emb d c False w') =
           Inr (Some \<lparr>vs_persist_directory = d, vs_collection_name = c,
                      vs_embedding_function = emb\<rparr>) \<and>
         calls (snd (get_or_create_vector_store E documents emb d c False w')) =
           calls w' @ [Call_os_makedirs d, Call_Chroma d c, Call_add_documents d c documents] \<and>
         collection (snd (get_or_create_vector_store E documents emb d c False w')) d c =
           collection w' d c @ documents" for w'
    using assms
    by (simp add: get_or_create_vector_store_def Chroma_def add_documents_def Let_def
        collection_add_records)
  from once [of w] once [of "snd (get_or_create_vector_store E documents emb d c False w)"]
  show ?thesis by simp
qed

text \<open>
  An instance: one chunk added twice to a new collection.
\<close>

theorem add_documents_appends_duplicates_witness:
  "collection world0 ''db'' ''products'' = [] \<and>
   collection (snd (get_or_create_vector_store E0 [doc ''A costs 100'']
       (HuggingFaceEmbeddings ''m'') ''db'' ''products'' False world0)) ''db'' ''products'' =
     [doc ''A costs 100''] \<and>
   collection (snd (get_or_create_vector_store E0 [doc ''A costs 100'']
       (HuggingFaceEmbeddings ''m'') ''db'' ''products'' False
       (snd (get_or_create_vector_store E0 [doc ''A costs 100'']
          (HuggingFaceEmbeddings ''m'') ''db'' ''products'' False world0)))) ''db'' ''products'' =
     [doc ''A costs 100'', doc ''A costs 100'']"
proof -
  have h1: "[doc ''A costs 100''] \<noteq> []" by simp
  have h2: "\<And>w'. Chroma_fault E0 w' ''db'' ''products'' = None" by (simp add: E0_def)
  have h3: "\<And>w' vs. add_documents_fault E0 w' vs [doc ''A costs 100''] = None"
    by (simp add: E0_def)
  have e: "collection world0 ''db'' ''products'' = []" by (simp add: collection_def world0_def)
  from add_documents_appends_duplicates
    [of "[doc ''A costs 100'']" E0 "''db''" "''products''" "HuggingFaceEmbeddings ''m''" world0,
     OF h1 h2 h3] e
  show ?thesis by simp
qed

text \<open>
  No step of the initialization removes a record or calls \<open>shutil.rmtree\<close>: each
  leaves every collection a prefix of what it becomes.
\<close>

lemma grows_refl: "grows w w"
  by (simp add: grows_def)

lemma grows_trans: "grows w w' \<Longrightarrow> grows w' w'' \<Longrightarrow> grows w w''"
  unfolding grows_def by (metis prefix_order.order_trans)

lemma grows_log: "\<not> is_rmtree c \<Longrightarrow> grows w (log c w)"
  by (simp add: grows_def)

lemma grows_os_makedirs: "grows w (os_makedirs p w)"
  by (simp add: grows_def)

lemma grows_get_or_create_collection: "grows w (get_or_create_collection p k w)"
  by (simp add: grows_def)

lemma grows_add_records: "grows w (add_records p k documents w)"
  by (simp add: grows_def collection_add_records)

lemma grows_Chroma: "grows w (snd (Chroma E d emb c w))"
  by (simp add: grows_def Chroma_def Let_def split: option.split)

lemma grows_add_documents: "grows w (snd (add_documents E vs documents w))"
  by (simp add: grows_def add_documents_def Let_def collection_add_records split: option.split)

lemma grows_from_documents: "grows w (snd (from_documents E documents emb d c w))"
  by (simp add: grows_def from_documents_def Let_def collection_add_records split: option.split)

lemma grows_create_after_error: "grows w (snd (create_after_error E documents emb d c w))"
  using grows_from_documents [of w E documents emb d c]
  by (cases "from_documents E documents emb d c w")
     (auto simp: create_after_error_def grows_refl split: sum.split)

lemma grows_get_or_create_vector_store:
  "grows w (snd (get_or_create_vector_store E documents emb d c False w))"
proof -
  let ?w1 = "os_makedirs d w"
  have 1: "grows w ?w1" by (rule grows_os_makedirs)
  obtain r w3 where open_store: "Chroma E d emb c ?w1 = (r, w3)"
    by (cases "Chroma E d emb c ?w1")
  have 3: "grows w w3"
    using grows_trans [OF 1 grows_Chroma [of ?w1 E d emb c]] open_store by simp
  have fallback: "grows w (snd (create_after_error E documents emb d c w'))" if "grows w w'" for w'
    using that grows_create_after_error by (rule grows_trans)
  show ?thesis
  proof (cases r)
    case (Inl e)
    with open_store fallback [OF 3] show ?thesis
      by (simp add: get_or_create_vector_store_def Let_def)
  next
    case (Inr vector_store)
    show ?thesis
    proof (cases "documents = []")
      case True
      with open_store Inr 3 show ?thesis
        by (simp add: get_or_create_vector_store_def Let_def)
    next
      case False
      obtain r' w4 where add: "add_documents E vector_store documents w3 = (r', w4)"
        by (cases "add_documents E vector_store documents w3")
      have 4: "grows w w4"
        using grows_trans [OF 3 grows_add_documents [of w3 E vector_store documents]] add
        by simp
      from open_store Inr False add 4 fallback [OF 4] show ?thesis
        by (cases r') (simp_all add: get_or_create_vector_store_def Let_def)
    qed
  qed
qed

lemma grows_load_files: "grows w0 w \<Longrightarrow> grows w0 (snd (load_files E root files (documents, w)))"
proof (induction files arbitrary: documents w)
  case Nil
  then show ?case by simp
next
  case (Cons f files)
  have c: "grows w0 (log (Call_construct l) w)" for l
    using Cons.prems grows_log [of "Call_construct l" w] by (auto intro: grows_trans)
  have "grows w0 (log (Call_load l) (log (Call_construct l) w))" for l
    using c [of l] grows_log [of "Call_load l" "log (Call_construct l) w"]
    by (auto intro: grows_trans)
  with Cons.prems c show ?case
    by (auto simp: Let_def split: option.split sum.split intro!: Cons.IH)
qed

lemma grows_load_walk: "grows w0 w \<Longrightarrow> grows w0 (snd (load_walk E walk (documents, w)))"
proof (induction walk arbitrary: documents w)
  case Nil
  then show ?case by simp
next
  case (Cons rf walk)
  obtain root files where rf: "rf = (root, files)" by (cases rf)
  obtain r w' where s: "load_files E root files (documents, w) = (r, w')"
    by (cases "load_files E root files (documents, w)")
  have g: "grows w0 w'"
    using grows_load_files [OF Cons.prems, of E root files documents] s by simp
  show ?case
    using g by (cases r) (simp_all add: rf s Cons.IH)
qed

lemma grows_load_documents: "grows w (snd (load_documents E directory w))"
  unfolding load_documents_def
  by (rule grows_load_walk) (simp add: grows_log)

lemma grows_get_processed_documents: "grows w (snd (get_processed_documents E w))"
proof -
  obtain r w' where l: "load_documents E (PRODUCT_DOCS_DIR E) w = (r, w')"
    by (cases "load_documents E (PRODUCT_DOCS_DIR E) w")
  have g: "grows w w'"
    using grows_load_documents [of w E "PRODUCT_DOCS_DIR E"] l by simp
  moreover have "grows w (log Call_split_documents w')"
    using g grows_log [of Call_split_documents w'] by (auto intro: grows_trans)
  ultimately show ?thesis
    using l by (cases r) (simp_all add: get_processed_documents_def split_documents_def)
qed

lemma grows_get_embedding_model: "grows w (snd (get_embedding_model E w))"
  by (simp add: get_embedding_model_def Let_def grows_log split: option.split)

lemma grows_get_vector_store_retriever:
  "grows w (snd (get_vector_store_retriever E emb d c k w))"
proof -
  obtain r w' where c: "Chroma E d emb c w = (r, w')"
    by (cases "Chroma E d emb c w")
  have "grows w w'"
    using grows_Chroma [of w E d emb c] c by simp
  moreover have "grows w' (log (Call_as_retriever k) w')"
    by (simp add: grows_log)
  ultimately show ?thesis
    using c by (cases r) (auto simp: get_vector_store_retriever_def intro: grows_trans)
qed

lemma grows_Ollama: "grows w (snd (Ollama E url name w))"
  by (simp add: Ollama_def Let_def grows_log split: option.split)

lemma grows_initialize_rag_chain: "grows w (snd (initialize_rag_chain E w))"
proof -
  obtain r1 w1 where 1: "get_embedding_model E w = (r1, w1)"
    by (cases "get_embedding_model E w")
  have g1: "grows w w1" using grows_get_embedding_model [of w E] 1 by simp
  show ?thesis
  proof (cases r1)
    case None
    with 1 g1 show ?thesis by (simp add: initialize_rag_chain_def)
  next
    case (Some emb)
    obtain r2 w2 where 2: "get_processed_documents E w1 = (r2, w2)"
      by (cases "get_processed_documents E w1")
    have g2: "grows w w2"
      using grows_trans [OF g1 grows_get_processed_documents [of w1 E]] 2 by simp
    show ?thesis
    proof (cases r2)
      case (Inl e)
      with 1 Some 2 g2 show ?thesis by (simp add: initialize_rag_chain_def)
    next
      case (Inr docs)
      obtain r3 w3 where 3: "get_or_create_vector_store E docs emb
          (CHROMA_DB_PATH E) CHROMA_COLLECTION_NAME False w2 = (r3, w3)"
        by (cases "get_or_create_vector_store E docs emb
          (CHROMA_DB_PATH E) CHROMA_COLLECTION_NAME False w2")
      have g3: "grows w w3"
        using grows_trans [OF g2 grows_get_or_create_vector_store
            [of w2 E docs emb "CHROMA_DB_PATH E" CHROMA_COLLECTION_NAME]] 3 by simp
      obtain r4 w4 where 4: "get_vector_store_retriever E emb
          (CHROMA_DB_PATH E) CHROMA_COLLECTION_NAME TOP_K_RETRIEVAL w3 = (r4, w4)"
        by (cases "get_vector_store_retriever E emb
          (CHROMA_DB_PATH E) CHROMA_COLLECTION_NAME TOP_K_RETRIEVAL w3")
      have g4: "grows w w4"
        using grows_trans [OF g3 grows_get_vector_store_retriever
            [of w3 E emb "CHROMA_DB_PATH E" CHROMA_COLLECTION_NAME TOP_K_RETRIEVAL]] 4 by simp
      obtain r5 w5 where 5: "Ollama E OLLAMA_BASE_URL OLLAMA_MODEL_NAME w4 = (r5, w5)"
        by (cases "Ollama E OLLAMA_BASE_URL OLLAMA_MODEL_NAME w4")
      have g5: "grows w w5"
        using grows_trans [OF g4 grows_Ollama [of w4 E OLLAMA_BASE_URL OLLAMA_MODEL_NAME]] 5
        by simp
      from 1 Some 2 Inr 3 4 5 g3 g4 g5 show ?thesis
        by (simp add: initialize_rag_chain_def split: sum.split option.split)
    qed
  qed
qed

text \<open>
  C10.  \<open>initialize_rag_chain\<close> calls \<open>get_or_create_vector_store\<close> with
  \<open>force_recreate=False\<close>.  In every case, also when it returns \<open>None\<close> or raises, the
  records of every collection before the call are still there afterwards, in the same
  order and before any new record, and no call of \<open>shutil.rmtree\<close> is made.
\<close>

theorem initialization_keeps_every_record:
  "prefix (collection w d c) (collection (snd (initialize_rag_chain E w)) d c) \<and>
   filter is_rmtree (calls (snd (initialize_rag_chain E w))) = filter is_rmtree (calls w)"
  using grows_initialize_rag_chain [of w E] by (simp add: grows_def)

text \<open>
  An instance: an index with two records.
\<close>

theorem initialization_keeps_every_record_witness:
  "prefix [doc ''A costs 100'', doc ''B costs 50'']
     (collection (snd (initialize_rag_chain E0 world1))
        ''/app/vector_store/chroma_db'' ''product_info_collection'') \<and>
   filter is_rmtree (calls (snd (initialize_rag_chain E0 world1))) = []"
proof -
  have c: "collection world1 ''/app/vector_store/chroma_db'' ''product_info_collection'' =
      [doc ''A costs 100'', doc ''B costs 50'']"
    by (simp add: collection_def world1_def)
  have e: "calls world1 = []" by (simp add: world1_def)
  from initialization_keeps_every_record
    [of world1 "''/app/vector_store/chroma_db''" "''product_info_collection''" E0] c e
  show ?thesis by simp
qed

section \<open>The chat front end\<close>

lemma failed_run:
  assumes "cache a = Some None"
  shows "script_run E u a w =
           (None,
            a\<lparr>messages :=
                 (if clear_chat u then []
                  else case chat_input u of
                         None \<Rightarrow> messages a
                       | Some prompt \<Rightarrow>
                           if prompt = [] then messages a
                           else messages a @
                             [\<lparr>role = ''user'', content = prompt\<rparr>,
                              \<lparr>role = ''assistant'', content =
                                 ''Chatbot is not initialized. Please check the setup messages above.''\<rparr>])\<rparr>,
            w)"
  using assms
  by (simp add: script_run_def setup_rag_chain_def respond_def split: option.split)

lemma failed_session:
  assumes "cache a = Some None"
  shows "snd (run_session runs a w) = w \<and> cache (fst (run_session runs a w)) = Some None"
  using assms
proof (induction runs arbitrary: a)
  case Nil
  then show ?case by simp
next
  case (Cons r runs)
  obtain E u where r: "r = (E, u)" by (cases r)
  obtain a' where step: "script_run E u a w = (None, a', w)" and c: "cache a' = Some None"
    using failed_run [OF Cons.prems, of E u w] Cons.prems by simp
  from Cons.IH [OF c] show ?case by (simp add: r step)
qed

text \<open>
  C1.  Take a process whose first run of the script finds \<open>initialize_rag_chain\<close>
  returning \<open>None\<close>.  The run ends without an exception and the cache holds \<open>None\<close>.
  After any number of further runs, whatever the user does and whatever has become of
  the outside (the model may be reachable again), the cache still holds \<open>None\<close> and no
  call has been made since the first run: the initialization is not tried again.  A
  question asked then gets the fixed text as the assistant's answer, and the run ends
  without an exception.
\<close>

theorem failed_initialization_is_terminal:
  assumes "cache a = None"
      and "fst (initialize_rag_chain E w) = Inr None"
      and "script_run E u a w = (x, a1, w1)"
      and "run_session runs a1 w1 = (a2, w2)"
      and "prompt \<noteq> []"
  shows "x = None \<and> w1 = snd (initialize_rag_chain E w) \<and> cache a1 = Some None \<and>
         cache a2 = Some None \<and> w2 = w1 \<and>
         script_run E' \<lparr>chat_input = Some prompt, clear_chat = False\<rparr> a2 w2 =
           (None,
            a2\<lparr>messages := messages a2 @
                 [\<lparr>role = ''user'', content = prompt\<rparr>,
                  \<lparr>role = ''assistant'', content =
                     ''Chatbot is not initialized. Please check the setup messages above.''\<rparr>]\<rparr>,
            w2)"
proof -
  obtain wi where init: "initialize_rag_chain E w = (Inr None, wi)"
    using assms(2) by (cases "initialize_rag_chain E w") simp
  have memo: "setup_rag_chain E a w = (Inr None, a\<lparr>cache := Some None\<rparr>, wi)"
    using assms(1) init by (simp add: setup_rag_chain_def)
  have first: "x = None \<and> w1 = wi \<and> cache a1 = Some None"
    using assms(3) by (auto simp: script_run_def memo respond_def split: option.splits if_splits)
  then have c1: "cache a1 = Some None" by simp
  have later: "w2 = w1 \<and> cache a2 = Some None"
    using failed_session [OF c1, of runs w1] assms(4) by simp
  then have c2: "cache a2 = Some None" by simp
  show ?thesis
    using first later init failed_run [OF c2, of E' "\<lparr>chat_input = Some prompt, clear_chat = False\<rparr>" w2]
      assms(5)
    by simp
qed

text \<open>
  An instance: the embedding model fails in the first run; the second and third run
  have an outside in which the embedding model loads.
\<close>

theorem failed_initialization_is_terminal_witness:
  "script_run E4 (say ''hi'') app0 world0 = (None, app_failed, world_failed) \<and>
   run_session [(E0, say ''again'')] app_failed world_failed = (app_failed2, world_failed) \<and>
   script_run E0 (say ''price?'') app_failed2 world_failed =
     (None,
      app_failed2\<lparr>messages := messages app_failed2 @
            [\<lparr>role = ''user'', content = ''price?''\<rparr>,
             \<lparr>role = ''assistant'', content = not_initialized\<rparr>]\<rparr>,
      world_failed)"
proof -
  have h1: "cache app0 = None" by (simp add: app0_def)
  have init: "initialize_rag_chain E4 world0 = (Inr None, world_failed)"
    by (simp add: initialize_rag_chain_def get_embedding_model_def E4_def E0_def world0_def world_failed_def
        log_def EMBEDDING_MODEL_NAME_def)
  then have h2: "fst (initialize_rag_chain E4 world0) = Inr None" by simp
  have h3: "script_run E4 (say ''hi'') app0 world0 = (None, app_failed, world_failed)"
    by (simp add: script_run_def setup_rag_chain_def init respond_def app0_def app_failed_def say_def
        not_initialized_def)
  have h4: "run_session [(E0, say ''again'')] app_failed world_failed = (app_failed2, world_failed)"
    by (simp add: script_run_def setup_rag_chain_def respond_def app_failed_def app_failed2_def say_def
        not_initialized_def)
  have h5: "''price?'' \<noteq> []" by simp
  from failed_initialization_is_terminal [OF h1 h2 h3 h4 h5, of E0] h3 h4 show ?thesis
    by (simp add: say_def not_initialized_def)
qed

text \<open>
  C5.  With an initialized chain in the cache, a question whose stream raises \<open>e\<close>, at
  the retrieval or at the model, after any number of fragments: the run ends without an
  exception, the only change to the state of the application is the two messages of the
  turn, and the assistant's message is the error text with \<open>str(e)\<close>.  The chain stays in
  the cache, and the answer to the next question is what \<open>respond\<close> gives for that
  question, that chain and the outside of that run.
\<close>

theorem generation_failure_is_one_turn:
  assumes "cache a = Some (Some ch)"
      and "prompt \<noteq> []"
      and "fst (rag_chain_stream E ch prompt w) = (fragments, Some e)"
      and "question \<noteq> []"
  shows "script_run E \<lparr>chat_input = Some prompt, clear_chat = False\<rparr> a w =
           (None,
            a\<lparr>messages := messages a @
                 [\<lparr>role = ''user'', content = prompt\<rparr>,
                  \<lparr>role = ''assistant'', content =
                     ''An error occurred: '' @ str e @
                     ''. Please check the console and ensure Ollama is running.''\<rparr>]\<rparr>,
            snd (rag_chain_stream E ch prompt w)) \<and>
         script_run E' \<lparr>chat_input = Some question, clear_chat = False\<rparr>
             (fst (snd (script_run E \<lparr>chat_input = Some prompt, clear_chat = False\<rparr> a w))) w' =
           (None,
            a\<lparr>messages := messages a @
                 [\<lparr>role = ''user'', content = prompt\<rparr>,
                  \<lparr>role = ''assistant'', content =
                     ''An error occurred: '' @ str e @
                     ''. Please check the console and ensure Ollama is running.''\<rparr>,
                  \<lparr>role = ''user'', content = question\<rparr>,
                  \<lparr>role = ''assistant'', content = fst (respond E' (Some ch) question w')\<rparr>]\<rparr>,
            snd (respond E' (Some ch) question w'))"
proof -
  obtain ws where s: "rag_chain_stream E ch prompt w = ((fragments, Some e), ws)"
    using assms(3) by (cases "rag_chain_stream E ch prompt w") simp
  have run: "script_run E \<lparr>chat_input = Some prompt, clear_chat = False\<rparr> a w =
           (None,
            a\<lparr>messages := messages a @
                 [\<lparr>role = ''user'', content = prompt\<rparr>,
                  \<lparr>role = ''assistant'', content =
                     ''An error occurred: '' @ str e @
                     ''. Please check the console and ensure Ollama is running.''\<rparr>]\<rparr>,
            snd (rag_chain_stream E ch prompt w))"
    using assms(1,2) s by (simp add: script_run_def setup_rag_chain_def respond_def)
  obtain reply wr where r: "respond E' (Some ch) question w' = (reply, wr)"
    by (cases "respond E' (Some ch) question w'")
  show ?thesis
    using assms(1,4) r by (simp add: run) (simp add: script_run_def setup_rag_chain_def)
qed

lemma stream_E5:
  "rag_chain_stream E5 ch0 ''price?'' world1 =
     (([''B co''], Some (Exception ''connection refused'')), log (Call_llm
        (''Human: '' @ filled_template (''A costs 100'' @ ''\<newline>\<newline>'' @ ''B costs 50'') ''price?''))
        (log (Call_retrieve ''price?'') world1))"
proof -
  have p: "chain_prompt ch0 = RAG_PROMPT_TEMPLATE" by (simp add: ch0_def)
  have r: "fst (retriever_invoke E5 (chain_retriever ch0) ''price?'' world1) =
     Inr [doc ''A costs 100'', doc ''B costs 50'']"
    by (simp add: retriever_invoke_def E5_def E0_def ch0_def world1_def collection_def Let_def)
  have f: "format_docs [doc ''A costs 100'', doc ''B costs 50''] =
      ''A costs 100'' @ ''\<newline>\<newline>'' @ ''B costs 50''"
    by (simp add: format_docs_def doc_def)
  show ?thesis
    by (simp add: rag_chain_stream_def chain_prompt_value_eq [OF p r] map_StrOutputParser f
        to_string_def Let_def)
       (simp add: E5_def E0_def)
qed

text \<open>
  An instance: the model endpoint refuses the connection after one fragment.
\<close>

theorem generation_failure_is_one_turn_witness:
  "fst (rag_chain_stream E5 ch0 ''price?'' world1) = ([''B co''], Some (Exception ''connection refused'')) \<and>
   fst (script_run E5 (say ''price?'') app_ready world1) = None \<and>
   fst (snd (script_run E5 (say ''price?'') app_ready world1)) =
     app_ready\<lparr>messages :=
          [\<lparr>role = ''user'', content = ''price?''\<rparr>,
           \<lparr>role = ''assistant'', content =
              ''An error occurred: connection refused. Please check the console and ensure Ollama is running.''\<rparr>]\<rparr> \<and>
   fst (script_run E0 (say ''price?'')
          (fst (snd (script_run E5 (say ''price?'') app_ready world1))) world1) = None"
proof -
  have h1: "cache app_ready = Some (Some ch0)" by (simp add: app_ready_def)
  have h2: "''price?'' \<noteq> []" by simp
  have h3: "fst (rag_chain_stream E5 ch0 ''price?'' world1) =
      ([''B co''], Some (Exception ''connection refused''))"
    by (simp add: stream_E5)
  note t = generation_failure_is_one_turn [OF h1 h2 h3 h2, of E0 world1]
  from t have r1: "script_run E5 \<lparr>chat_input = Some ''price?'', clear_chat = False\<rparr> app_ready world1 =
      (None,
       app_ready\<lparr>messages := messages app_ready @
          [\<lparr>role = ''user'', content = ''price?''\<rparr>,
           \<lparr>role = ''assistant'', content =
              ''An error occurred: '' @ str (Exception ''connection refused'') @
              ''. Please check the console and ensure Ollama is running.''\<rparr>]\<rparr>,
       snd (rag_chain_stream E5 ch0 ''price?'' world1))"
    by (rule conjunct1)
  have r2: "fst (script_run E0 \<lparr>chat_input = Some ''price?'', clear_chat = False\<rparr>
      (fst (snd (script_run E5 \<lparr>chat_input = Some ''price?'', clear_chat = False\<rparr> app_ready world1)))
      world1) = None"
    by (simp only: conjunct2 [OF t] fst_conv)
  have m: "messages app_ready = []" by (simp add: app_ready_def)
  show ?thesis
    unfolding say_def
    by (intro conjI) (rule h3, simp add: r1, simp add: r1 m, rule r2)
qed

lemma stream_same_contents:
  assumes "collection w1 (vs_persist_directory (r_vectorstore (chain_retriever ch)))
             (vs_collection_name (r_vectorstore (chain_retriever ch))) =
           collection w2 (vs_persist_directory (r_vectorstore (chain_retriever ch)))
             (vs_collection_name (r_vectorstore (chain_retriever ch)))"
  shows "fst (rag_chain_stream E ch q w1) = fst (rag_chain_stream E ch q w2) \<and>
         drop (length (calls w1)) (calls (snd (rag_chain_stream E ch q w1))) =
         drop (length (calls w2)) (calls (snd (rag_chain_stream E ch q w2)))"
  using assms
  by (simp add: rag_chain_stream_def chain_prompt_value_def retriever_invoke_def Let_def to_string_def
      split: sum.split prod.split)

text \<open>
  C8.  Two runs with the same chain in the cache and the same question, on indexes
  whose collection has the same records, make the same calls, so the query given to the
  retriever and the prompt given to the model are the same, and produce the same two
  messages, whatever the messages of the two sessions were before.
\<close>

theorem history_does_not_reach_the_model:
  assumes "cache a1 = Some (Some ch)" and "cache a2 = Some (Some ch)"
      and "collection w1 (vs_persist_directory (r_vectorstore (chain_retriever ch)))
             (vs_collection_name (r_vectorstore (chain_retriever ch))) =
           collection w2 (vs_persist_directory (r_vectorstore (chain_retriever ch)))
             (vs_collection_name (r_vectorstore (chain_retriever ch)))"
      and "u = \<lparr>chat_input = Some question, clear_chat = False\<rparr>"
  shows "drop (length (calls w1)) (calls (snd (snd (script_run E u a1 w1)))) =
         drop (length (calls w2)) (calls (snd (snd (script_run E u a2 w2)))) \<and>
         drop (length (messages a1)) (messages (fst (snd (script_run E u a1 w1)))) =
         drop (length (messages a2)) (messages (fst (snd (script_run E u a2 w2))))"
proof -
  obtain r1 v1 where s1: "rag_chain_stream E ch question w1 = (r1, v1)"
    by (cases "rag_chain_stream E ch question w1")
  obtain r2 v2 where s2: "rag_chain_stream E ch question w2 = (r2, v2)"
    by (cases "rag_chain_stream E ch question w2")
  from stream_same_contents [OF assms(3), of E question] s1 s2
  have r: "r1 = r2"
    and c: "drop (length (calls w1)) (calls v1) = drop (length (calls w2)) (calls v2)"
    by simp_all
  obtain fragments fault where r2: "r2 = (fragments, fault)" by (cases r2)
  show ?thesis
    using assms(1,2,4) s1 s2 r c r2
    by (cases fault) (simp_all add: script_run_def setup_rag_chain_def respond_def)
qed

text \<open>
  An instance: an empty session and a session with an earlier exchange.
\<close>

theorem history_does_not_reach_the_model_witness:
  "drop (length (calls world1)) (calls (snd (snd (script_run E0 (say ''price?'') app_ready world1)))) =
   drop (length (calls (log (Call_retrieve ''what is B?'') world1)))
     (calls (snd (snd (script_run E0 (say ''price?'') app_ready2 (log (Call_retrieve ''what is B?'') world1))))) \<and>
   drop (length (messages app_ready)) (messages (fst (snd (script_run E0 (say ''price?'') app_ready world1)))) =
   drop (length (messages app_ready2))
     (messages (fst (snd (script_run E0 (say ''price?'') app_ready2 (log (Call_retrieve ''what is B?'') world1))))) \<and>
   messages app_ready \<noteq> messages app_ready2"
proof -
  have h1: "cache app_ready = Some (Some ch0)" by (simp add: app_ready_def)
  have h2: "cache app_ready2 = Some (Some ch0)" by (simp add: app_ready2_def)
  have h3: "collection world1 (vs_persist_directory (r_vectorstore (chain_retriever ch0)))
             (vs_collection_name (r_vectorstore (chain_retriever ch0))) =
           collection (log (Call_retrieve ''what is B?'') world1)
             (vs_persist_directory (r_vectorstore (chain_retriever ch0)))
             (vs_collection_name (r_vectorstore (chain_retriever ch0)))"
    by simp
  have h4: "say ''price?'' = \<lparr>chat_input = Some ''price?'', clear_chat = False\<rparr>"
    by (simp add: say_def)
  have d: "messages app_ready \<noteq> messages app_ready2" by (simp add: app_ready_def app_ready2_def)
  from history_does_not_reach_the_model [OF h1 h2 h3 h4, of E0] d show ?thesis
    by simp
qed

end
